theory Spec2Isabelle
  imports Main "HOL-Library.Multiset" "HOL-Library.Product_Lexorder"
    "HOL-Library.Char_ord" "HOL-Library.List_Lexorder"
begin

section \<open>Data model (birdapp/models.py)\<close>

text \<open>
  A calendar date is the triple (year, month, day); the lexicographic order on triples is
  the order of \<^verbatim>\<open>datetime.date\<close>.
\<close>

type_synonym date = "nat \<times> nat \<times> nat"

definition year_of :: "date \<Rightarrow> nat" where
  "year_of d = fst d"

definition month_of :: "date \<Rightarrow> nat" where
  "month_of d = fst (snd d)"

text \<open>
  Each model class is a record; the primary key \<^verbatim>\<open>id\<close> of a class is the field
  \<open>..._pk\<close>, a foreign key is the field \<open>..._id\<close> (for a Location, \<open>parent_location\<close>)
  holding the key of the referenced row, \<open>None\<close> for SQL NULL. The fields \<^verbatim>\<open>count\<close>
  and \<^verbatim>\<open>notes\<close> of a Sighting are \<open>count_field\<close> and \<open>notes_field\<close>.
\<close>

record family =
  family_pk :: int
  family_name :: string
  subfamily_name :: "string option"

record bird =
  bird_pk :: int
  english_name :: string
  latin_name :: "string option"
  french_name :: "string option"
  species_status :: "string option"
  family_id :: "int option"

record location =
  location_pk :: int
  location_name :: string
  parent_location :: "int option"

record trip =
  trip_pk :: int
  trip_name :: string
  start_date :: date
  end_date :: date
  description :: string

record sighting =
  sighting_pk :: int
  bird_id :: int
  location_id :: int
  trip_id :: "int option"
  date_seen :: date
  heard_not_seen :: bool
  count_field :: int
  notes_field :: string

text \<open>The database: one table (a list of rows) per model class.\<close>

record store =
  families :: "family list"
  birds :: "bird list"
  locations :: "location list"
  trips :: "trip list"
  sightings :: "sighting list"

datatype http_method = GET | POST

datatype http_error = Http404 | Http405

text \<open>The exceptions that the modelled code can raise.\<close>

datatype py_error = PageNotAnInteger | EmptyPage | ZeroDivisionError | ValueError

text \<open>\<^verbatim>\<open>get_object_or_404(Model, id=i)\<close>: the row with that key, or the 404 response.\<close>

definition get_object_or_404 :: "('a \<Rightarrow> int) \<Rightarrow> 'a list \<Rightarrow> int \<Rightarrow> http_error + 'a" where
  "get_object_or_404 pk rows i =
     (case find (\<lambda>r. pk r = i) rows of None \<Rightarrow> Inl Http404 | Some r \<Rightarrow> Inr r)"

text \<open>\<^verbatim>\<open>str(n)\<close> of a non-negative integer, as the f-strings of the views print a count.\<close>

definition digit_char :: "nat \<Rightarrow> char" where
  "digit_char d = ''0123456789'' ! d"

fun py_str :: "nat \<Rightarrow> string" where
  "py_str n = (if n < 10 then [digit_char n] else py_str (n div 10) @ [digit_char (n mod 10)])"

declare py_str.simps [simp del]

text \<open>The body of a \<^verbatim>\<open>JsonResponse\<close> of the delete views.\<close>

record json_response =
  success :: bool
  message :: string

section \<open>Deleting rows (Model.delete)\<close>

text \<open>
  models.py declares every foreign key with \<^verbatim>\<open>on_delete=models.CASCADE\<close>: deleting a row
  deletes the rows that reference it, and the rows that reference those. For a location
  the rows collected are its descendants (\<open>collect_locations\<close> follows the child links
  once for each row of the table, which reaches every descendant) and the sightings at any
  of them.
\<close>

definition trip_cascade_delete :: "int \<Rightarrow> store \<Rightarrow> store" where
  "trip_cascade_delete t st =
     st\<lparr>trips := filter (\<lambda>r. trip_pk r \<noteq> t) (trips st),
        sightings := filter (\<lambda>s. trip_id s \<noteq> Some t) (sightings st)\<rparr>"

definition bird_cascade_delete :: "int \<Rightarrow> store \<Rightarrow> store" where
  "bird_cascade_delete b st =
     st\<lparr>birds := filter (\<lambda>r. bird_pk r \<noteq> b) (birds st),
        sightings := filter (\<lambda>s. bird_id s \<noteq> b) (sightings st)\<rparr>"

definition child_pks :: "location list \<Rightarrow> int list \<Rightarrow> int list" where
  "child_pks locs pks =
     map location_pk
       (filter (\<lambda>l. case parent_location l of None \<Rightarrow> False | Some p \<Rightarrow> p \<in> set pks) locs)"

fun collect_locations :: "nat \<Rightarrow> location list \<Rightarrow> int list \<Rightarrow> int list" where
  "collect_locations 0 locs pks = pks"
| "collect_locations (Suc n) locs pks = collect_locations n locs (pks @ child_pks locs pks)"

definition location_cascade_delete :: "int \<Rightarrow> store \<Rightarrow> store" where
  "location_cascade_delete l st =
     (let pks = collect_locations (length (locations st)) (locations st) [l]
      in st\<lparr>locations := filter (\<lambda>r. location_pk r \<notin> set pks) (locations st),
            sightings := filter (\<lambda>s. location_id s \<notin> set pks) (sightings st)\<rparr>)"

section \<open>Trips (views/trip_views.py)\<close>

text \<open>\<^verbatim>\<open>Sighting.objects.filter(trip=trip).update(trip=None)\<close>\<close>

definition dereference_sightings :: "int \<Rightarrow> sighting list \<Rightarrow> sighting list" where
  "dereference_sightings t ss =
     map (\<lambda>s. if trip_id s = Some t then s\<lparr>trip_id := None\<rparr> else s) ss"

datatype trip_delete_response =
  Redirect_trip_list string
  | Render_confirm_delete trip nat

text \<open>
  \<open>trip_delete\<close>: on POST the sightings of the trip are dereferenced, then the trip is
  deleted, and the success message counts the sightings found before the update; any other
  method renders the confirmation page and leaves the store as it is.
\<close>

definition trip_delete :: "http_method \<Rightarrow> int \<Rightarrow> store \<Rightarrow> http_error + (trip_delete_response \<times> store)" where
  "trip_delete method t st =
     (case get_object_or_404 trip_pk (trips st) t of
        Inl e \<Rightarrow> Inl e
      | Inr trip \<Rightarrow>
          (if method = POST then
             let sighting_count = length (filter (\<lambda>s. trip_id s = Some (trip_pk trip)) (sightings st));
                 name = trip_name trip;
                 st1 = st\<lparr>sightings := dereference_sightings (trip_pk trip) (sightings st)\<rparr>;
                 st2 = trip_cascade_delete (trip_pk trip) st1
             in if sighting_count > 0
                then Inr (Redirect_trip_list
                       (''Trip \"'' @ name @ ''\" deleted successfully. '' @ py_str sighting_count
                          @ '' sighting(s) have been dereferenced.''), st2)
                else Inr (Redirect_trip_list (''Trip \"'' @ name @ ''\" deleted successfully.''), st2)
           else
             let sighting_count = length (filter (\<lambda>s. trip_id s = Some (trip_pk trip)) (sightings st))
             in Inr (Render_confirm_delete trip sighting_count, st)))"

section \<open>Birds (views/bird_views.py)\<close>

text \<open>
  \<open>bird_delete\<close> is decorated with \<^verbatim>\<open>require_POST\<close>: any other method is answered 405
  before the body runs. A bird with sightings is not deleted: the response reports how many
  sightings block it.
\<close>

definition bird_delete :: "http_method \<Rightarrow> int \<Rightarrow> store \<Rightarrow> http_error + (json_response \<times> store)" where
  "bird_delete method b st =
     (if method \<noteq> POST then Inl Http405
      else case get_object_or_404 bird_pk (birds st) b of
        Inl e \<Rightarrow> Inl e
      | Inr bird_obj \<Rightarrow>
          (let sighting_count = length (filter (\<lambda>s. bird_id s = bird_pk bird_obj) (sightings st))
           in if sighting_count > 0
              then Inr (\<lparr>success = False,
                         message = ''Cannot delete \"'' @ english_name bird_obj @ ''\" because it has ''
                           @ py_str sighting_count @ '' sighting(s). Please delete the sightings first.''\<rparr>,
                        st)
              else let bird_name = english_name bird_obj
                   in Inr (\<lparr>success = True,
                              message = ''Bird \"'' @ bird_name @ ''\" has been deleted successfully.''\<rparr>,
                           bird_cascade_delete (bird_pk bird_obj) st)))"

section \<open>Locations (views/location_views.py)\<close>


text \<open>
  The loop \<^verbatim>\<open>for child in children: all_children.extend(f(child))\<close>, where \<open>f\<close> is the
  recursive call; a call that does not return makes the loop not return.
\<close>

fun extend_all :: "(location \<Rightarrow> location list option) \<Rightarrow> location list \<Rightarrow> location list \<Rightarrow> location list option" where
  "extend_all f [] all_children = Some all_children"
| "extend_all f (child # rest) all_children =
     Option.bind (f child) (\<lambda>sub. extend_all f rest (all_children @ sub))"

lemma extend_all_mono [partial_function_mono]:
  assumes "\<And>c. mono_option (\<lambda>f. F f c)"
  shows "mono_option (\<lambda>f. extend_all (F f) children acc)"
proof (induction children arbitrary: acc)
  case Nil
  show ?case by (simp add: option.const_mono)
next
  case (Cons c cs)
  show ?case
    by (simp, rule bind_mono [OF assms]) (rule Cons.IH)
qed





text \<open>
  \<open>location_delete\<close> (behind \<^verbatim>\<open>require_POST\<close>): a location with sightings, or else with
  child locations, is not deleted and the response reports how many block it.
\<close>

definition location_delete :: "http_method \<Rightarrow> int \<Rightarrow> store \<Rightarrow> http_error + (json_response \<times> store)" where
  "location_delete method l st =
     (if method \<noteq> POST then Inl Http405
      else case get_object_or_404 location_pk (locations st) l of
        Inl e \<Rightarrow> Inl e
      | Inr location_obj \<Rightarrow>
          (let sighting_count =
                 length (filter (\<lambda>s. location_id s = location_pk location_obj) (sightings st))
           in if sighting_count > 0
              then Inr (\<lparr>success = False,
                         message = ''Cannot delete \"'' @ location_name location_obj
                           @ ''\" because it has '' @ py_str sighting_count
                           @ '' sighting(s). Please delete or reassign the sightings first.''\<rparr>,
                        st)
              else
                let child_count =
                      length (filter (\<lambda>c. parent_location c = Some (location_pk location_obj))
                                (locations st))
                in if child_count > 0
                   then Inr (\<lparr>success = False,
                              message = ''Cannot delete \"'' @ location_name location_obj
                                @ ''\" because it has '' @ py_str child_count
                                @ '' child location(s). Please delete or reassign the child locations first.''\<rparr>,
                             st)
                   else let name = location_name location_obj
                        in Inr (\<lparr>success = True,
                                   message = ''Location \"'' @ name @ ''\" has been deleted successfully.''\<rparr>,
                                location_cascade_delete (location_pk location_obj) st)))"

text \<open>
  The data of a POST to \<open>location_edit\<close>, and what \<^verbatim>\<open>LocationForm\<close> makes of it:
  \<^verbatim>\<open>location_name\<close> is required and at most 200 characters long (max_length of the
  model field); \<^verbatim>\<open>parent_location\<close> is optional and, when given, must be the key of a
  row of the table. The cleaned data is the name and the parent row. (The name is taken as
  posted: the whitespace stripping of the form field is not modelled.)
\<close>

record location_post =
  post_location_name :: string
  post_parent_location :: "int option"

definition LocationForm_clean :: "location list \<Rightarrow> location_post \<Rightarrow> (string \<times> location option) option" where
  "LocationForm_clean locs post =
     (if post_location_name post = [] \<or> length (post_location_name post) > 200 then None
      else case post_parent_location post of
        None \<Rightarrow> Some (post_location_name post, None)
      | Some p \<Rightarrow>
          (case find (\<lambda>l. location_pk l = p) locs of
             None \<Rightarrow> None
           | Some parent \<Rightarrow> Some (post_location_name post, Some parent)))"

text \<open>
  The loop of \<open>location_edit\<close> that walks from the new parent upwards:
  \<^verbatim>\<open>while current: if current.id == location_obj.id: (reject); current = current.parent_location\<close>.
  It ends with \<open>Circular\<close> when it meets the location being edited and with \<open>No_cycle\<close>
  at a root; reading a parent link to a missing row raises DoesNotExist; \<open>None\<close> is a
  walk that does not end.
\<close>

datatype walk_result = Circular | No_cycle | DoesNotExist

partial_function (option) walk_parents :: "location list \<Rightarrow> int \<Rightarrow> location \<Rightarrow> walk_result option" where
  "walk_parents locs target current =
     (if location_pk current = target then Some Circular
      else case parent_location current of
        None \<Rightarrow> Some No_cycle
      | Some p \<Rightarrow>
          (case find (\<lambda>l. location_pk l = p) locs of
             None \<Rightarrow> Some DoesNotExist
           | Some parent \<Rightarrow> walk_parents locs target parent))"

text \<open>The walk from \<open>current\<close> upwards meets the location with key \<open>target\<close>.\<close>

inductive reaches :: "location list \<Rightarrow> int \<Rightarrow> location \<Rightarrow> bool" for locs target where
  reaches_here: "location_pk current = target \<Longrightarrow> reaches locs target current"
| reaches_up: "location_pk current \<noteq> target \<Longrightarrow> parent_location current = Some p \<Longrightarrow>
     find (\<lambda>l. location_pk l = p) locs = Some parent \<Longrightarrow> reaches locs target parent \<Longrightarrow>
     reaches locs target current"

text \<open>\<^verbatim>\<open>form.save()\<close>: the row of the edited location gets the cleaned name and parent.\<close>

definition save_location :: "int \<Rightarrow> string \<Rightarrow> location option \<Rightarrow> store \<Rightarrow> store" where
  "save_location l name new_parent st =
     st\<lparr>locations :=
          map (\<lambda>r. if location_pk r = l
                    then r\<lparr>location_name := name, parent_location := map_option location_pk new_parent\<rparr>
                    else r)
            (locations st)\<rparr>"

datatype location_edit_response =
  Redirect_location_detail int string
  | Render_location_form "string option"
  | Server_error

text \<open>
  \<open>location_edit\<close>. A response \<open>Render_location_form (Some m)\<close> is the form shown again
  with the error message \<open>m\<close>; \<open>Redirect_location_detail\<close> follows a save.
\<close>

definition location_edit ::
  "http_method \<Rightarrow> int \<Rightarrow> location_post \<Rightarrow> store \<Rightarrow> (http_error + (location_edit_response \<times> store)) option" where
  "location_edit method l post st =
     (case get_object_or_404 location_pk (locations st) l of
        Inl e \<Rightarrow> Some (Inl e)
      | Inr location_obj \<Rightarrow>
          (if method = POST then
             (case LocationForm_clean (locations st) post of
                None \<Rightarrow> Some (Inr (Render_location_form (Some ''Please correct the errors below.''), st))
              | Some (name, new_parent) \<Rightarrow>
                  (let saved = Some (Inr (Redirect_location_detail (location_pk location_obj)
                                 (''Location \"'' @ name @ ''\" updated successfully!''),
                               save_location (location_pk location_obj) name new_parent st))
                   in case new_parent of
                        None \<Rightarrow> saved
                      | Some parent \<Rightarrow>
                          Option.bind (walk_parents (locations st) (location_pk location_obj) parent)
                            (\<lambda>w. case w of
                                   Circular \<Rightarrow>
                                     Some (Inr (Render_location_form
                                       (Some ''Cannot set parent location: this would create a circular reference.''), st))
                                 | DoesNotExist \<Rightarrow> Some (Inr (Server_error, st))
                                 | No_cycle \<Rightarrow> saved)))
           else Some (Inr (Render_location_form None, st))))"

section \<open>Species lists (views/list_views.py)\<close>

subsection \<open>The aggregation query\<close>

text \<open>
  One row of \<^verbatim>\<open>qs.values('bird').annotate(first_seen=Min('date_seen'), last_seen=Max('date_seen'))\<close>:
  the query groups the sightings by bird and there is one row for each bird that has a
  sighting in the queryset.
\<close>

record bird_row =
  row_bird :: int
  first_seen :: date
  last_seen :: date

definition dates_of_bird :: "int \<Rightarrow> sighting list \<Rightarrow> date list" where
  "dates_of_bird b qs = map date_seen (filter (\<lambda>s. bird_id s = b) qs)"

definition annotate_first_last :: "sighting list \<Rightarrow> bird_row list" where
  "annotate_first_last qs =
     map (\<lambda>b. \<lparr>row_bird = b,
                first_seen = Min (set (dates_of_bird b qs)),
                last_seen = Max (set (dates_of_bird b qs))\<rparr>)
       (remdups (map bird_id qs))"

text \<open>
  \<^verbatim>\<open>.order_by('-last_seen')\<close> is the only ordering the views ask for. The database returns
  the rows sorted by \<open>last_seen\<close>, latest first; among rows of equal \<open>last_seen\<close> the
  order is the database's own. So the queryset evaluates to some list \<open>out\<close> with
  \<open>order_by_last_seen_desc rows out\<close>: the same rows, sorted on that key.
\<close>

definition order_by_last_seen_desc :: "bird_row list \<Rightarrow> bird_row list \<Rightarrow> bool" where
  "order_by_last_seen_desc rows out \<longleftrightarrow>
     mset out = mset rows \<and> sorted_wrt (\<lambda>a b. last_seen a \<ge> last_seen b) out"

text \<open>
  \<^verbatim>\<open>QuerySet.first()\<close> of a queryset with no ordering: the row of least primary key, or
  \<^verbatim>\<open>None\<close> when there is no row.
\<close>

definition first_by_pk :: "sighting list \<Rightarrow> sighting option" where
  "first_by_pk qs = (case sort_key sighting_pk qs of [] \<Rightarrow> None | s # _ \<Rightarrow> Some s)"

subsection \<open>The entries of a list\<close>

text \<open>
  An entry of \<^verbatim>\<open>lifelist_entries\<close>. The key \<^verbatim>\<open>'bird'\<close> holds
  \<^verbatim>\<open>first_sighting.bird\<close>, here the key of that bird.
\<close>

record lifelist_entry =
  entry_bird :: int
  first_sighting :: sighting
  first_seen_date :: date
  last_seen_date :: date
  total_sightings :: nat
  is_recent :: bool

text \<open>
  The loop that builds \<^verbatim>\<open>lifelist_entries\<close> from the rows of the aggregation query, in
  their order. \<open>qs\<close> is the queryset the list is about: all sightings in \<open>lifelist\<close>, the
  sightings of the year in \<open>yearlist\<close>, whose loop has the same text. A row whose first
  sighting is not found adds no entry.
\<close>

fun lifelist_entries :: "sighting list \<Rightarrow> bird_row list \<Rightarrow> lifelist_entry list" where
  "lifelist_entries qs [] = []"
| "lifelist_entries qs (entry # rest) =
     (case first_by_pk (filter (\<lambda>s. bird_id s = row_bird entry \<and> date_seen s = first_seen entry) qs) of
        None \<Rightarrow> lifelist_entries qs rest
      | Some first \<Rightarrow>
          \<lparr>entry_bird = bird_id first,
           first_sighting = first,
           first_seen_date = first_seen entry,
           last_seen_date = last_seen entry,
           total_sightings = length (filter (\<lambda>s. bird_id s = row_bird entry) qs),
           is_recent = (first_seen entry = last_seen entry)\<rparr>
          # lifelist_entries qs rest)"

subsection \<open>New species of a year or a month\<close>

record period_stats =
  stats_total_sightings :: nat
  unique_species :: nat
  new_species :: nat

text \<open>
  The block \<^verbatim>\<open>if year:\<close> of \<open>yearlist\<close>. \<open>year\<close> is the parsed query parameter, a
  year of \<^verbatim>\<open>datetime.date\<close> (1 to 9999) or 0, the falsy year for which the view computes
  no statistics. \<open>base_sightings\<close> is the whole table.
\<close>

definition yearlist_year_stats :: "nat \<Rightarrow> sighting list \<Rightarrow> period_stats option" where
  "yearlist_year_stats year base_sightings =
     (let filtered_sightings = filter (\<lambda>s. year_of (date_seen s) = year) base_sightings
      in if year \<noteq> 0 then
           let this_year_species = set (map bird_id filtered_sightings);
               previous_years_species =
                 set (map bird_id (filter (\<lambda>s. year_of (date_seen s) < year) base_sightings))
           in Some \<lparr>stats_total_sightings = length filtered_sightings,
                     unique_species = length (annotate_first_last filtered_sightings),
                     new_species = card (this_year_species - previous_years_species)\<rparr>
         else None)"

text \<open>
  The block \<^verbatim>\<open>if year and month:\<close> of \<open>monthlist\<close>, for a parsed year and a parsed
  month; the view has reset both when the month is not in 1..12, so that no statistics
  are computed then. \<^verbatim>\<open>date(year, month, 1)\<close> raises ValueError for a year above 9999.
\<close>

definition monthlist_month_stats :: "nat \<Rightarrow> nat \<Rightarrow> sighting list \<Rightarrow> py_error + period_stats option" where
  "monthlist_month_stats year month base_sightings =
     (if 1 \<le> month \<and> month \<le> 12 then
        let filtered_sightings =
              filter (\<lambda>s. year_of (date_seen s) = year \<and> month_of (date_seen s) = month) base_sightings
        in if year \<noteq> 0 \<and> month \<noteq> 0 then
             let this_month_species = set (map bird_id filtered_sightings)
             in if year > 9999 then Inl ValueError
                else
                  let month_start = (year, month, 1);
                      previous_species =
                        set (map bird_id (filter (\<lambda>s. date_seen s < month_start) base_sightings))
                  in Inr (Some \<lparr>stats_total_sightings = length filtered_sightings,
                                  unique_species = length (annotate_first_last filtered_sightings),
                                  new_species = card (this_month_species - previous_species)\<rparr>)
           else Inr None
      else Inr None)"

text \<open>A date of the calendar has a month and a day that are at least 1.\<close>

definition valid_date :: "date \<Rightarrow> bool" where
  "valid_date d \<longleftrightarrow> 1 \<le> month_of d \<and> month_of d \<le> 12 \<and> 1 \<le> snd (snd d) \<and> snd (snd d) \<le> 31"

section \<open>Pagination\<close>

subsection \<open>Query parameters and \<^verbatim>\<open>int()\<close>\<close>








subsection \<open>The paginator of the framework (django.core.paginator.Paginator)\<close>






subsection \<open>The pagination blocks of the views\<close>








subsection \<open>Policies for a page number\<close>





section \<open>Adding a sighting (forms.py, views/sighting_views.py)\<close>

text \<open>
  The data of a POST to \<open>add_sighting\<close>, field by field as the form fields read it:
  \<open>None\<close> is a field that is empty or not of the field's type.
\<close>

record sighting_post =
  post_bird :: "int option"
  post_location :: "int option"
  post_trip :: "int option"
  post_date_seen :: "date option"
  post_heard_not_seen :: bool
  post_count :: "int option"
  post_notes :: string

text \<open>
  \<^verbatim>\<open>SightingForm\<close> (the second class of that name in forms.py, which is the one in effect)
  is a ModelForm over the fields of Sighting. Bird, location, date and count are required
  and trip is not; a bird, location or trip must be a row of its table. The model field
  \<^verbatim>\<open>count = models.IntegerField(default=1)\<close> has no validators, and the form declares for it
  a widget only (\<^verbatim>\<open>NumberInput(attrs={'min': 1, 'value': 1})\<close>, attributes of the HTML
  input); the form field checks that the count lies in the range \<open>db_range\<close> of the
  integer column of the database and nothing else. The cleaned data is the bird and the
  unsaved Sighting (with the key 0 until it is saved).
\<close>

definition SightingForm_clean :: "int \<times> int \<Rightarrow> store \<Rightarrow> sighting_post \<Rightarrow> (bird \<times> sighting) option" where
  "SightingForm_clean db_range st post =
     (case post_bird post of None \<Rightarrow> None | Some b \<Rightarrow>
      case find (\<lambda>r. bird_pk r = b) (birds st) of None \<Rightarrow> None | Some bird_obj \<Rightarrow>
      case post_location post of None \<Rightarrow> None | Some l \<Rightarrow>
      case find (\<lambda>r. location_pk r = l) (locations st) of None \<Rightarrow> None | Some location_obj \<Rightarrow>
      if (case post_trip post of None \<Rightarrow> False
          | Some t \<Rightarrow> find (\<lambda>r. trip_pk r = t) (trips st) = None) then None
      else
      case post_date_seen post of None \<Rightarrow> None | Some d \<Rightarrow>
      case post_count post of None \<Rightarrow> None | Some c \<Rightarrow>
      if c < fst db_range \<or> snd db_range < c then None
      else Some (bird_obj,
             \<lparr>sighting_pk = 0, bird_id = bird_pk bird_obj, location_id = location_pk location_obj,
              trip_id = post_trip post, date_seen = d,
              heard_not_seen = post_heard_not_seen post, count_field = c,
              notes_field = post_notes post\<rparr>))"

text \<open>\<^verbatim>\<open>form.save()\<close>: the new row gets the next key of the table.\<close>

definition next_pk :: "sighting list \<Rightarrow> int" where
  "next_pk rows = (if rows = [] then 1 else Max (set (map sighting_pk rows)) + 1)"

definition save_sighting :: "sighting \<Rightarrow> store \<Rightarrow> store" where
  "save_sighting s st = st\<lparr>sightings := sightings st @ [s\<lparr>sighting_pk := next_pk (sightings st)\<rparr>]\<rparr>"

datatype add_sighting_response =
  Redirect_add_sighting string
  | Render_add_sighting "string option"

definition add_sighting ::
  "int \<times> int \<Rightarrow> http_method \<Rightarrow> sighting_post \<Rightarrow> store \<Rightarrow> add_sighting_response \<times> store" where
  "add_sighting db_range method post st =
     (if method = POST then
        (case SightingForm_clean db_range st post of
           Some (bird_obj, sighting) \<Rightarrow>
             (Redirect_add_sighting
                (''Sighting of '' @ english_name bird_obj @ '' recorded successfully!''),
              save_sighting sighting st)
         | None \<Rightarrow> (Render_add_sighting (Some ''Please correct the errors below.''), st))
      else (Render_add_sighting None, st))"

section \<open>Example data\<close>

definition example_trip_store :: store where
  "example_trip_store =
     \<lparr>families = [],
      birds = [\<lparr>bird_pk = 1, english_name = ''Robin'', latin_name = None, french_name = None,
                species_status = None, family_id = None\<rparr>],
      locations = [\<lparr>location_pk = 1, location_name = ''Shore'', parent_location = None\<rparr>],
      trips = [\<lparr>trip_pk = 7, trip_name = ''Coast'', start_date = (2023, 5, 1),
                end_date = (2023, 5, 3), description = ''''\<rparr>],
      sightings =
        [\<lparr>sighting_pk = 1, bird_id = 1, location_id = 1, trip_id = Some 7,
          date_seen = (2023, 5, 2), heard_not_seen = False, count_field = 3, notes_field = ''x''\<rparr>,
         \<lparr>sighting_pk = 2, bird_id = 1, location_id = 1, trip_id = None,
          date_seen = (2023, 6, 2), heard_not_seen = True, count_field = 1, notes_field = ''''\<rparr>]\<rparr>"

definition example_trip_store_after :: store where
  "example_trip_store_after =
     \<lparr>families = [],
      birds = [\<lparr>bird_pk = 1, english_name = ''Robin'', latin_name = None, french_name = None,
                species_status = None, family_id = None\<rparr>],
      locations = [\<lparr>location_pk = 1, location_name = ''Shore'', parent_location = None\<rparr>],
      trips = [],
      sightings =
        [\<lparr>sighting_pk = 1, bird_id = 1, location_id = 1, trip_id = None,
          date_seen = (2023, 5, 2), heard_not_seen = False, count_field = 3, notes_field = ''x''\<rparr>,
         \<lparr>sighting_pk = 2, bird_id = 1, location_id = 1, trip_id = None,
          date_seen = (2023, 6, 2), heard_not_seen = True, count_field = 1, notes_field = ''''\<rparr>]\<rparr>"

text \<open>The chain A > B > C: the parent of C is B, the parent of B is A.\<close>

definition loc_A :: location where
  "loc_A = \<lparr>location_pk = 1, location_name = ''A'', parent_location = None\<rparr>"

definition loc_B :: location where
  "loc_B = \<lparr>location_pk = 2, location_name = ''B'', parent_location = Some 1\<rparr>"

definition loc_C :: location where
  "loc_C = \<lparr>location_pk = 3, location_name = ''C'', parent_location = Some 2\<rparr>"

definition chain_store :: store where
  "chain_store = \<lparr>families = [], birds = [], locations = [loc_A, loc_B, loc_C], trips = [], sightings = []\<rparr>"



text \<open>Robin is bird 1 and Sparrow is bird 2.\<close>

definition sighting_of :: "int \<Rightarrow> int \<Rightarrow> date \<Rightarrow> sighting" where
  "sighting_of k b d =
     \<lparr>sighting_pk = k, bird_id = b, location_id = 1, trip_id = None, date_seen = d,
      heard_not_seen = False, count_field = 1, notes_field = ''''\<rparr>"

definition scenario_sightings :: "sighting list" where
  "scenario_sightings =
     [sighting_of 1 1 (2023, 1, 5), sighting_of 2 1 (2023, 6, 1), sighting_of 3 2 (2023, 3, 1)]"

definition scenario_rows :: "bird_row list" where
  "scenario_rows =
     [\<lparr>row_bird = 1, first_seen = (2023, 1, 5), last_seen = (2023, 6, 1)\<rparr>,
      \<lparr>row_bird = 2, first_seen = (2023, 3, 1), last_seen = (2023, 3, 1)\<rparr>]"

text \<open>Robin and Sparrow both seen last on the same day.\<close>

definition tie_sightings :: "sighting list" where
  "tie_sightings = [sighting_of 1 1 (2023, 3, 1), sighting_of 2 2 (2023, 3, 1)]"

definition tie_row :: "int \<Rightarrow> bird_row" where
  "tie_row b = \<lparr>row_bird = b, first_seen = (2023, 3, 1), last_seen = (2023, 3, 1)\<rparr>"

text \<open>Robin seen in 2022; Robin and Sparrow seen in 2023.\<close>

definition history_sightings :: "sighting list" where
  "history_sightings =
     [sighting_of 1 1 (2022, 4, 9), sighting_of 2 1 (2023, 5, 2), sighting_of 3 2 (2023, 5, 20)]"


text \<open>A submission of a sighting of no birds: an existing bird and location, a date, count 0.\<close>

definition count_zero_post :: sighting_post where
  "count_zero_post =
     \<lparr>post_bird = Some 1, post_location = Some 1, post_trip = None,
      post_date_seen = Some (2023, 7, 1), post_heard_not_seen = False,
      post_count = Some 0, post_notes = ''''\<rparr>"

section \<open>Properties\<close>

lemma get_object_or_404_pk:
  "get_object_or_404 pk rows i = Inr r \<Longrightarrow> pk r = i \<and> r \<in> set rows"
  by (auto simp: get_object_or_404_def find_Some_iff split: option.splits)

lemma py_str_1: "py_str (Suc 0) = ''1''"
  by (subst py_str.simps) (simp add: digit_char_def)

subsection \<open>Deleting a trip\<close>

lemma filter_dereference_sightings:
  "filter (\<lambda>s. trip_id s \<noteq> Some t) (dereference_sightings t ss) = dereference_sightings t ss"
  by (induction ss) (auto simp: dereference_sightings_def)

lemma list_all2_dereference_sightings:
  "list_all2
     (\<lambda>s s'. s' = s\<lparr>trip_id := (if trip_id s = Some t then None else trip_id s)\<rparr>)
     ss (dereference_sightings t ss)"
  by (induction ss) (auto simp: dereference_sightings_def)

text \<open>
  C6. A Trip deletion through \<open>trip_delete\<close> (POST) removes the Trip row only: the
  sightings table keeps every row, in place; a sighting that referenced the trip has its
  trip reference set to NULL and every other field as before, and a sighting that did not
  is unchanged. Birds and locations are untouched.
\<close>

theorem trip_delete_keeps_sightings:
  assumes "trip_delete POST t st = Inr (resp, st')"
  shows "list_all2
           (\<lambda>s s'. s' = s\<lparr>trip_id := (if trip_id s = Some t then None else trip_id s)\<rparr>)
           (sightings st) (sightings st')
         \<and> length (sightings st') = length (sightings st)
         \<and> trips st' = filter (\<lambda>r. trip_pk r \<noteq> t) (trips st)
         \<and> birds st' = birds st \<and> locations st' = locations st"
proof -
  from assms obtain trip where g: "get_object_or_404 trip_pk (trips st) t = Inr trip"
    by (auto simp: trip_delete_def split: sum.splits)
  then have pk: "trip_pk trip = t"
    using get_object_or_404_pk by fastforce
  from assms g pk have st': "st' = trip_cascade_delete t (st\<lparr>sightings := dereference_sightings t (sightings st)\<rparr>)"
    by (auto simp: trip_delete_def Let_def split: if_splits)
  have s: "sightings st' = dereference_sightings t (sightings st)"
    by (simp add: st' trip_cascade_delete_def filter_dereference_sightings)
  show ?thesis
    using list_all2_dereference_sightings [of t "sightings st"]
    by (simp add: s) (simp add: st' trip_cascade_delete_def dereference_sightings_def)
qed

lemma example_trip_delete:
  "trip_delete POST 7 example_trip_store =
     Inr (Redirect_trip_list ''Trip \"Coast\" deleted successfully. 1 sighting(s) have been dereferenced.'',
          example_trip_store_after)"
  by (simp add: trip_delete_def get_object_or_404_def example_trip_store_def
      example_trip_store_after_def dereference_sightings_def trip_cascade_delete_def py_str_1)

theorem trip_delete_keeps_sightings_witness:
  "trip_delete POST 7 example_trip_store =
     Inr (Redirect_trip_list ''Trip \"Coast\" deleted successfully. 1 sighting(s) have been dereferenced.'',
          example_trip_store_after)
   \<and> (list_all2
        (\<lambda>s s'. s' = s\<lparr>trip_id := (if trip_id s = Some 7 then None else trip_id s)\<rparr>)
        (sightings example_trip_store) (sightings example_trip_store_after)
      \<and> length (sightings example_trip_store_after) = length (sightings example_trip_store)
      \<and> trips example_trip_store_after = filter (\<lambda>r. trip_pk r \<noteq> 7) (trips example_trip_store)
      \<and> birds example_trip_store_after = birds example_trip_store
      \<and> locations example_trip_store_after = locations example_trip_store)"
  by (rule conjI [OF example_trip_delete trip_delete_keeps_sightings [OF example_trip_delete]])

subsection \<open>Deleting a bird or a location\<close>

lemma collect_locations_no_children:
  "child_pks locs pks = [] \<Longrightarrow> collect_locations n locs pks = pks"
  by (induction n) auto

lemma filter_none_iff: "length (filter P xs) = 0 \<longleftrightarrow> filter (\<lambda>x. \<not> P x) xs = xs"
  by (induction xs) (auto dest: filter_eq_ConsD)

lemma bird_cascade_delete_no_sightings:
  assumes "length (filter (\<lambda>s. bird_id s = b) (sightings st)) = 0"
  shows "bird_cascade_delete b st = st\<lparr>birds := filter (\<lambda>r. bird_pk r \<noteq> b) (birds st)\<rparr>"
proof -
  have "filter (\<lambda>s. bird_id s \<noteq> b) (sightings st) = sightings st"
    using assms filter_none_iff [of "\<lambda>s. bird_id s = b" "sightings st"] by simp
  then show ?thesis
    by (simp add: bird_cascade_delete_def)
qed

lemma location_cascade_delete_no_dependents:
  assumes "length (filter (\<lambda>s. location_id s = l) (sightings st)) = 0"
      and "length (filter (\<lambda>c. parent_location c = Some l) (locations st)) = 0"
  shows "location_cascade_delete l st = st\<lparr>locations := filter (\<lambda>r. location_pk r \<noteq> l) (locations st)\<rparr>"
proof -
  have "filter (\<lambda>c. case parent_location c of None \<Rightarrow> False | Some p \<Rightarrow> p \<in> set [l]) (locations st)
        = filter (\<lambda>c. parent_location c = Some l) (locations st)"
    by (rule filter_cong) (auto split: option.splits)
  with assms(2) have "child_pks (locations st) [l] = []"
    by (simp add: child_pks_def)
  then have pks: "collect_locations (length (locations st)) (locations st) [l] = [l]"
    by (rule collect_locations_no_children)
  have "filter (\<lambda>s. location_id s \<noteq> l) (sightings st) = sightings st"
    using assms(1) filter_none_iff [of "\<lambda>s. location_id s = l" "sightings st"] by simp
  then show ?thesis
    by (simp add: location_cascade_delete_def pks)
qed

text \<open>
  C9. \<open>bird_delete\<close> on a bird that has sightings, and \<open>location_delete\<close> on a location
  that has sightings or child locations, answer \<open>success = False\<close> with a message that
  gives the kind and the number of the blocking rows, and return the store as it was.
  Only with no such rows is the answer \<open>success = True\<close>, and then exactly the row of
  the bird or location is removed.
\<close>

theorem delete_blocked_by_dependents:
  "(get_object_or_404 bird_pk (birds st) b = Inr bird_obj \<longrightarrow>
      bird_delete POST b st =
        (let n = length (filter (\<lambda>s. bird_id s = b) (sightings st))
         in if n > 0
            then Inr (\<lparr>success = False,
                       message = ''Cannot delete \"'' @ english_name bird_obj @ ''\" because it has ''
                         @ py_str n @ '' sighting(s). Please delete the sightings first.''\<rparr>, st)
            else Inr (\<lparr>success = True,
                       message = ''Bird \"'' @ english_name bird_obj @ ''\" has been deleted successfully.''\<rparr>,
                      st\<lparr>birds := filter (\<lambda>r. bird_pk r \<noteq> b) (birds st)\<rparr>)))
   \<and> (get_object_or_404 location_pk (locations st) l = Inr location_obj \<longrightarrow>
      location_delete POST l st =
        (let n = length (filter (\<lambda>s. location_id s = l) (sightings st));
             k = length (filter (\<lambda>c. parent_location c = Some l) (locations st))
         in if n > 0
            then Inr (\<lparr>success = False,
                       message = ''Cannot delete \"'' @ location_name location_obj @ ''\" because it has ''
                         @ py_str n @ '' sighting(s). Please delete or reassign the sightings first.''\<rparr>, st)
            else if k > 0
            then Inr (\<lparr>success = False,
                       message = ''Cannot delete \"'' @ location_name location_obj @ ''\" because it has ''
                         @ py_str k @ '' child location(s). Please delete or reassign the child locations first.''\<rparr>, st)
            else Inr (\<lparr>success = True,
                       message = ''Location \"'' @ location_name location_obj @ ''\" has been deleted successfully.''\<rparr>,
                      st\<lparr>locations := filter (\<lambda>r. location_pk r \<noteq> l) (locations st)\<rparr>)))"
proof (intro conjI impI)
  assume g: "get_object_or_404 bird_pk (birds st) b = Inr bird_obj"
  then have pk: "bird_pk bird_obj = b"
    using get_object_or_404_pk by fastforce
  show "bird_delete POST b st =
        (let n = length (filter (\<lambda>s. bird_id s = b) (sightings st))
         in if n > 0
            then Inr (\<lparr>success = False,
                       message = ''Cannot delete \"'' @ english_name bird_obj @ ''\" because it has ''
                         @ py_str n @ '' sighting(s). Please delete the sightings first.''\<rparr>, st)
            else Inr (\<lparr>success = True,
                       message = ''Bird \"'' @ english_name bird_obj @ ''\" has been deleted successfully.''\<rparr>,
                      st\<lparr>birds := filter (\<lambda>r. bird_pk r \<noteq> b) (birds st)\<rparr>))"
    using bird_cascade_delete_no_sightings [of b st]
    by (simp add: bird_delete_def g pk Let_def)
next
  assume g: "get_object_or_404 location_pk (locations st) l = Inr location_obj"
  then have pk: "location_pk location_obj = l"
    using get_object_or_404_pk by fastforce
  show "location_delete POST l st =
        (let n = length (filter (\<lambda>s. location_id s = l) (sightings st));
             k = length (filter (\<lambda>c. parent_location c = Some l) (locations st))
         in if n > 0
            then Inr (\<lparr>success = False,
                       message = ''Cannot delete \"'' @ location_name location_obj @ ''\" because it has ''
                         @ py_str n @ '' sighting(s). Please delete or reassign the sightings first.''\<rparr>, st)
            else if k > 0
            then Inr (\<lparr>success = False,
                       message = ''Cannot delete \"'' @ location_name location_obj @ ''\" because it has ''
                         @ py_str k @ '' child location(s). Please delete or reassign the child locations first.''\<rparr>, st)
            else Inr (\<lparr>success = True,
                       message = ''Location \"'' @ location_name location_obj @ ''\" has been deleted successfully.''\<rparr>,
                      st\<lparr>locations := filter (\<lambda>r. location_pk r \<noteq> l) (locations st)\<rparr>))"
    using location_cascade_delete_no_dependents [of l st]
    by (simp add: location_delete_def g pk Let_def)
qed

lemma py_str_2: "py_str (Suc (Suc 0)) = ''2''"
  by (subst py_str.simps) (simp add: digit_char_def)

theorem delete_blocked_by_dependents_witness:
  "bird_delete POST 1 example_trip_store =
     Inr (\<lparr>success = False,
            message = ''Cannot delete \"Robin\" because it has 2 sighting(s). Please delete the sightings first.''\<rparr>,
          example_trip_store)
   \<and> location_delete POST 1 example_trip_store =
     Inr (\<lparr>success = False,
            message = ''Cannot delete \"Shore\" because it has 2 sighting(s). Please delete or reassign the sightings first.''\<rparr>,
          example_trip_store)
   \<and> location_delete POST 2 chain_store =
     Inr (\<lparr>success = False,
            message = ''Cannot delete \"B\" because it has 1 child location(s). Please delete or reassign the child locations first.''\<rparr>,
          chain_store)
   \<and> location_delete POST 3 chain_store =
     Inr (\<lparr>success = True, message = ''Location \"C\" has been deleted successfully.''\<rparr>,
          chain_store\<lparr>locations := [loc_A, loc_B]\<rparr>)"
proof -
  have b: "get_object_or_404 bird_pk (birds example_trip_store) 1 =
      Inr \<lparr>bird_pk = 1, english_name = ''Robin'', latin_name = None, french_name = None,
            species_status = None, family_id = None\<rparr>"
    by (simp add: get_object_or_404_def example_trip_store_def)
  have l: "get_object_or_404 location_pk (locations example_trip_store) 1 =
      Inr \<lparr>location_pk = 1, location_name = ''Shore'', parent_location = None\<rparr>"
    by (simp add: get_object_or_404_def example_trip_store_def)
  have l2: "get_object_or_404 location_pk (locations chain_store) 2 = Inr loc_B"
    by (simp add: get_object_or_404_def chain_store_def loc_A_def loc_B_def)
  have l3: "get_object_or_404 location_pk (locations chain_store) 3 = Inr loc_C"
    by (simp add: get_object_or_404_def chain_store_def loc_A_def loc_B_def loc_C_def)
  note t1 = delete_blocked_by_dependents [of example_trip_store 1 _ 1, THEN conjunct1, rule_format, OF b]
  note t2 = delete_blocked_by_dependents [of example_trip_store 1 _ 1, THEN conjunct2, rule_format, OF l]
  note t3 = delete_blocked_by_dependents [of chain_store 0 undefined 2, THEN conjunct2, rule_format, OF l2]
  note t4 = delete_blocked_by_dependents [of chain_store 0 undefined 3, THEN conjunct2, rule_format, OF l3]
  have "bird_delete POST 1 example_trip_store =
     Inr (\<lparr>success = False,
            message = ''Cannot delete \"Robin\" because it has 2 sighting(s). Please delete the sightings first.''\<rparr>,
          example_trip_store)"
    unfolding t1 by (simp add: example_trip_store_def py_str_2)
  moreover have "location_delete POST 1 example_trip_store =
     Inr (\<lparr>success = False,
            message = ''Cannot delete \"Shore\" because it has 2 sighting(s). Please delete or reassign the sightings first.''\<rparr>,
          example_trip_store)"
    unfolding t2 by (simp add: example_trip_store_def py_str_2)
  moreover have "location_delete POST 2 chain_store =
     Inr (\<lparr>success = False,
            message = ''Cannot delete \"B\" because it has 1 child location(s). Please delete or reassign the child locations first.''\<rparr>,
          chain_store)"
    unfolding t3 by (simp add: chain_store_def loc_A_def loc_B_def loc_C_def py_str_1)
  moreover have "location_delete POST 3 chain_store =
     Inr (\<lparr>success = True, message = ''Location \"C\" has been deleted successfully.''\<rparr>,
          chain_store\<lparr>locations := [loc_A, loc_B]\<rparr>)"
    unfolding t4 by (simp add: chain_store_def loc_A_def loc_B_def loc_C_def)
  ultimately show ?thesis by blast
qed

subsection \<open>Editing the parent of a location\<close>

lemma reaches_walk_parents:
  "reaches locs target current \<Longrightarrow> walk_parents locs target current = Some Circular"
proof (induction rule: reaches.induct)
  case (reaches_here current)
  then show ?case
    by (subst walk_parents.simps) simp
next
  case (reaches_up current p parent)
  then show ?case
    by (subst walk_parents.simps) simp
qed

text \<open>
  C8. When the walk from the proposed new parent upwards meets the location being edited,
  \<open>location_edit\<close> returns (the walk ends, nothing is raised) with the form shown again
  under the circular-reference error, and the store is the store before the request. In
  the chain A > B > C this is the request that makes C the parent of A.
\<close>

theorem location_edit_rejects_cycle:
  assumes "get_object_or_404 location_pk (locations st) l = Inr location_obj"
      and "LocationForm_clean (locations st) post = Some (name, Some new_parent)"
      and "reaches (locations st) l new_parent"
  shows "location_edit POST l post st =
           Some (Inr (Render_location_form
             (Some ''Cannot set parent location: this would create a circular reference.''), st))"
proof -
  have pk: "location_pk location_obj = l"
    using assms(1) get_object_or_404_pk by fastforce
  have "walk_parents (locations st) l new_parent = Some Circular"
    using assms(3) by (rule reaches_walk_parents)
  then show ?thesis
    by (simp add: location_edit_def assms(1,2) pk)
qed

lemma reaches_chain: "reaches (locations chain_store) 1 loc_C"
proof -
  have a: "reaches (locations chain_store) 1 loc_A"
    by (rule reaches_here) (simp add: loc_A_def)
  have fa: "find (\<lambda>l. location_pk l = 1) (locations chain_store) = Some loc_A"
    by (simp add: chain_store_def loc_A_def)
  have b: "reaches (locations chain_store) 1 loc_B"
    by (rule reaches_up [OF _ _ fa a]) (simp_all add: loc_B_def)
  have fb: "find (\<lambda>l. location_pk l = 2) (locations chain_store) = Some loc_B"
    by (simp add: chain_store_def loc_A_def loc_B_def)
  show ?thesis
    by (rule reaches_up [OF _ _ fb b]) (simp_all add: loc_C_def)
qed

lemma chain_get_A: "get_object_or_404 location_pk (locations chain_store) 1 = Inr loc_A"
  by (simp add: get_object_or_404_def chain_store_def loc_A_def)

lemma chain_clean:
  "LocationForm_clean (locations chain_store)
     \<lparr>post_location_name = ''A'', post_parent_location = Some 3\<rparr> = Some (''A'', Some loc_C)"
  by (simp add: LocationForm_clean_def chain_store_def loc_A_def loc_B_def loc_C_def)

theorem location_edit_rejects_cycle_witness:
  "get_object_or_404 location_pk (locations chain_store) 1 = Inr loc_A
   \<and> LocationForm_clean (locations chain_store)
        \<lparr>post_location_name = ''A'', post_parent_location = Some 3\<rparr> = Some (''A'', Some loc_C)
   \<and> reaches (locations chain_store) 1 loc_C
   \<and> location_edit POST 1 \<lparr>post_location_name = ''A'', post_parent_location = Some 3\<rparr> chain_store =
       Some (Inr (Render_location_form
         (Some ''Cannot set parent location: this would create a circular reference.''), chain_store))"
  using chain_get_A chain_clean reaches_chain
    location_edit_rejects_cycle [OF chain_get_A chain_clean reaches_chain]
  by blast

subsection \<open>Descendants of a location\<close>












subsection \<open>The species summary\<close>

lemma first_by_pk_eq_None: "first_by_pk qs = None \<longleftrightarrow> qs = []"
proof -
  have "sort_key sighting_pk qs = [] \<longleftrightarrow> qs = []"
    using length_sort [of sighting_pk qs] by (metis length_0_conv)
  then show ?thesis
    by (cases "sort_key sighting_pk qs") (auto simp: first_by_pk_def)
qed

lemma first_by_pk_Some: "first_by_pk qs = Some s \<Longrightarrow> s \<in> set qs"
proof -
  assume "first_by_pk qs = Some s"
  then obtain rest where "sort_key sighting_pk qs = s # rest"
    by (cases "sort_key sighting_pk qs") (auto simp: first_by_pk_def)
  then have "s \<in> set (sort_key sighting_pk qs)"
    by simp
  then show ?thesis by simp
qed

lemma list_all2_right_member:
  "list_all2 R xs ys \<Longrightarrow> y \<in> set ys \<Longrightarrow> \<exists>x \<in> set xs. R x y"
  by (induction rule: list_all2_induct) auto

lemma list_all2_map_eq:
  "list_all2 (\<lambda>x y. f x = g y) xs ys \<Longrightarrow> map f xs = map g ys"
  by (induction rule: list_all2_induct) auto

lemma set_dates_of_bird:
  "set (dates_of_bird b qs) = date_seen ` {s \<in> set qs. bird_id s = b}"
  by (auto simp: dates_of_bird_def)

lemma annotate_row:
  assumes "r \<in> set (annotate_first_last qs)"
  shows "row_bird r \<in> bird_id ` set qs"
    and "first_seen r = Min (date_seen ` {s \<in> set qs. bird_id s = row_bird r})"
    and "last_seen r = Max (date_seen ` {s \<in> set qs. bird_id s = row_bird r})"
  using assms by (auto simp: annotate_first_last_def set_dates_of_bird)

lemma first_seen_attained:
  assumes "b \<in> bird_id ` set qs"
  shows "\<exists>s \<in> set qs. bird_id s = b \<and> date_seen s = Min (date_seen ` {s \<in> set qs. bird_id s = b})"
proof -
  let ?D = "date_seen ` {s \<in> set qs. bird_id s = b}"
  have "finite ?D" by simp
  moreover have "?D \<noteq> {}" using assms by auto
  ultimately have "Min ?D \<in> ?D" by (rule Min_in)
  then show ?thesis by auto
qed

lemma lifelist_entries_rows:
  assumes "set rows \<subseteq> set (annotate_first_last qs)"
  shows "list_all2
           (\<lambda>r e. entry_bird e = row_bird r \<and> first_seen_date e = first_seen r
                  \<and> last_seen_date e = last_seen r
                  \<and> total_sightings e = length (filter (\<lambda>s. bird_id s = row_bird r) qs))
           rows (lifelist_entries qs rows)"
  using assms
proof (induction rows)
  case Nil
  show ?case by simp
next
  case (Cons r rows)
  let ?m = "filter (\<lambda>s. bird_id s = row_bird r \<and> date_seen s = first_seen r) qs"
  have r: "r \<in> set (annotate_first_last qs)"
    using Cons.prems by simp
  obtain s where "s \<in> set qs" "bird_id s = row_bird r" "date_seen s = first_seen r"
    using first_seen_attained [OF annotate_row(1) [OF r]] annotate_row(2) [OF r] by auto
  then have "?m \<noteq> []"
    by (auto simp: filter_empty_conv)
  then obtain f where f: "first_by_pk ?m = Some f"
    using first_by_pk_eq_None [of ?m] by (cases "first_by_pk ?m") auto
  then have "bird_id f = row_bird r"
    using first_by_pk_Some [OF f] by simp
  moreover have "list_all2
           (\<lambda>r e. entry_bird e = row_bird r \<and> first_seen_date e = first_seen r
                  \<and> last_seen_date e = last_seen r
                  \<and> total_sightings e = length (filter (\<lambda>s. bird_id s = row_bird r) qs))
           rows (lifelist_entries qs rows)"
    using Cons.prems by (intro Cons.IH) simp
  ultimately show ?case
    by (simp add: f)
qed

lemma ordered_rows:
  assumes "order_by_last_seen_desc (annotate_first_last qs) rows"
  shows "set rows = set (annotate_first_last qs)"
    and "distinct (map row_bird rows)"
    and "row_bird ` set rows = bird_id ` set qs"
proof -
  have m: "mset rows = mset (annotate_first_last qs)"
    using assms by (simp add: order_by_last_seen_desc_def)
  then show s: "set rows = set (annotate_first_last qs)"
    by (rule mset_eq_setD)
  have b: "map row_bird (annotate_first_last qs) = remdups (map bird_id qs)"
    by (simp add: annotate_first_last_def comp_def)
  have "mset (map row_bird rows) = mset (remdups (map bird_id qs))"
    using m b by (metis mset_map)
  then show "distinct (map row_bird rows)"
    using mset_eq_imp_distinct_iff distinct_remdups by blast
  have "row_bird ` set rows = set (map row_bird (annotate_first_last qs))"
    using s by simp
  then show "row_bird ` set rows = bird_id ` set qs"
    by (simp add: b)
qed

text \<open>
  C2. Whatever order the database returns the grouped rows in, the entries built by
  \<open>lifelist\<close> hold each bird that occurs in the sightings exactly once, and no other
  bird; the entry of a bird has the least \<open>date_seen\<close> of its sightings as first-seen
  date, the greatest as last-seen date, and the number of its sightings as total. No
  sightings give no entries.
\<close>

theorem lifelist_species_summary:
  assumes "order_by_last_seen_desc (annotate_first_last qs) rows"
  shows "distinct (map entry_bird (lifelist_entries qs rows))
    \<and> entry_bird ` set (lifelist_entries qs rows) = bird_id ` set qs
    \<and> (\<forall>e \<in> set (lifelist_entries qs rows).
         first_seen_date e = Min (date_seen ` {s \<in> set qs. bird_id s = entry_bird e})
       \<and> last_seen_date e = Max (date_seen ` {s \<in> set qs. bird_id s = entry_bird e})
       \<and> total_sightings e = length (filter (\<lambda>s. bird_id s = entry_bird e) qs)
       \<and> (distinct qs \<longrightarrow> total_sightings e = card {s \<in> set qs. bird_id s = entry_bird e}))
    \<and> (qs = [] \<longrightarrow> lifelist_entries qs rows = [])"
proof -
  let ?es = "lifelist_entries qs rows"
  let ?R = "\<lambda>r e. entry_bird e = row_bird r \<and> first_seen_date e = first_seen r
                  \<and> last_seen_date e = last_seen r
                  \<and> total_sightings e = length (filter (\<lambda>s. bird_id s = row_bird r) qs)"
  have sub: "set rows \<subseteq> set (annotate_first_last qs)"
    using ordered_rows(1) [OF assms] by simp
  then have all2: "list_all2 ?R rows ?es"
    by (rule lifelist_entries_rows)
  then have "list_all2 (\<lambda>r e. row_bird r = entry_bird e) rows ?es"
    by (rule list_all2_mono) simp
  then have birds: "map entry_bird ?es = map row_bird rows"
    using list_all2_map_eq [of row_bird entry_bird rows ?es] by simp
  have 1: "distinct (map entry_bird ?es)"
    using ordered_rows(2) [OF assms] by (simp add: birds)
  have "entry_bird ` set ?es = set (map entry_bird ?es)"
    by simp
  then have 2: "entry_bird ` set ?es = bird_id ` set qs"
    using ordered_rows(3) [OF assms] by (simp only: birds) simp
  have 3: "first_seen_date e = Min (date_seen ` {s \<in> set qs. bird_id s = entry_bird e})
       \<and> last_seen_date e = Max (date_seen ` {s \<in> set qs. bird_id s = entry_bird e})
       \<and> total_sightings e = length (filter (\<lambda>s. bird_id s = entry_bird e) qs)
       \<and> (distinct qs \<longrightarrow> total_sightings e = card {s \<in> set qs. bird_id s = entry_bird e})"
    if "e \<in> set ?es" for e
  proof -
    from list_all2_right_member [OF all2 that] obtain r where r: "r \<in> set rows" "?R r e"
      by blast
    then have "r \<in> set (annotate_first_last qs)"
      using sub by auto
    from annotate_row(2,3) [OF this] r(2)
    have "first_seen_date e = Min (date_seen ` {s \<in> set qs. bird_id s = entry_bird e})"
      and "last_seen_date e = Max (date_seen ` {s \<in> set qs. bird_id s = entry_bird e})"
      and t: "total_sightings e = length (filter (\<lambda>s. bird_id s = entry_bird e) qs)"
      by simp_all
    moreover have "total_sightings e = card {s \<in> set qs. bird_id s = entry_bird e}" if "distinct qs"
    proof -
      have "{s \<in> set qs. bird_id s = entry_bird e} = {s. bird_id s = entry_bird e} \<inter> set qs"
        by auto
      then show ?thesis
        using that t by (simp add: distinct_length_filter)
    qed
    ultimately show ?thesis by blast
  qed
  have 4: "lifelist_entries qs rows = []" if "qs = []"
  proof -
    have "rows = []"
      using assms that by (simp add: order_by_last_seen_desc_def annotate_first_last_def)
    then show ?thesis by simp
  qed
  from 1 2 3 4 show ?thesis by blast
qed

lemma scenario_annotate: "annotate_first_last scenario_sightings = scenario_rows"
  by (simp add: annotate_first_last_def scenario_sightings_def scenario_rows_def sighting_of_def
      dates_of_bird_def less_eq_prod_def less_prod_def min_def max_def)

lemma scenario_ordered: "order_by_last_seen_desc (annotate_first_last scenario_sightings) scenario_rows"
  unfolding scenario_annotate
  by (simp add: order_by_last_seen_desc_def scenario_rows_def less_eq_prod_def less_prod_def)

lemma scenario_entries:
  "lifelist_entries scenario_sightings scenario_rows =
     [\<lparr>entry_bird = 1, first_sighting = sighting_of 1 1 (2023, 1, 5),
       first_seen_date = (2023, 1, 5), last_seen_date = (2023, 6, 1),
       total_sightings = 2, is_recent = False\<rparr>,
      \<lparr>entry_bird = 2, first_sighting = sighting_of 3 2 (2023, 3, 1),
       first_seen_date = (2023, 3, 1), last_seen_date = (2023, 3, 1),
       total_sightings = 1, is_recent = True\<rparr>]"
  by (simp add: scenario_sightings_def scenario_rows_def sighting_of_def first_by_pk_def)

theorem lifelist_species_summary_witness:
  "order_by_last_seen_desc (annotate_first_last scenario_sightings) scenario_rows
   \<and> map (\<lambda>e. (entry_bird e, first_seen_date e, last_seen_date e, total_sightings e))
       (lifelist_entries scenario_sightings scenario_rows)
     = [(1, (2023, 1, 5), (2023, 6, 1), 2), (2, (2023, 3, 1), (2023, 3, 1), 1)]
   \<and> entry_bird ` set (lifelist_entries scenario_sightings scenario_rows)
     = bird_id ` set scenario_sightings
   \<and> distinct (map entry_bird (lifelist_entries scenario_sightings scenario_rows))"
  using scenario_ordered lifelist_species_summary [OF scenario_ordered]
  by (simp add: scenario_entries)

subsection \<open>The order of the entries\<close>

lemma order_by_unique:
  assumes "order_by_last_seen_desc A rows" and "order_by_last_seen_desc A rows'"
      and "distinct (map last_seen A)"
  shows "rows' = rows"
proof -
  have m: "mset rows = mset A" "mset rows' = mset A"
    and s: "sorted_wrt (\<lambda>a b. last_seen a \<ge> last_seen b) rows"
           "sorted_wrt (\<lambda>a b. last_seen a \<ge> last_seen b) rows'"
    using assms(1,2) by (simp_all add: order_by_last_seen_desc_def)
  have mm: "mset (map last_seen rows) = mset (map last_seen A)"
           "mset (map last_seen rows') = mset (map last_seen A)"
    using m by (metis mset_map)+
  have d: "distinct (map last_seen rows)" "distinct (map last_seen rows')"
    using mm assms(3) mset_eq_imp_distinct_iff by blast+
  have st: "set (map last_seen rows) = set (map last_seen rows')"
    using mm by (metis mset_eq_setD)
  have "sorted (rev (map last_seen rows))" "sorted (rev (map last_seen rows'))"
    using s by (simp_all add: sorted_wrt_rev sorted_wrt_map)
  then have "rev (map last_seen rows) = rev (map last_seen rows')"
    using d st by (intro sorted_distinct_set_unique) simp_all
  then have eq: "map last_seen rows' = map last_seen rows"
    by simp
  have "set rows' = set rows"
    using m by (metis mset_eq_setD)
  moreover have "inj_on last_seen (set rows)"
    using d(1) by (simp add: distinct_map)
  ultimately have "inj_on last_seen (set rows' \<union> set rows)"
    by simp
  then show ?thesis
    using eq by (simp add: inj_on_map_eq_map)
qed

text \<open>
  C5, as the code has it. The entries are in descending order of last-seen date. The
  query orders on that date alone: when no two birds share a last-seen date the sequence
  of rows, and so of entries, is determined; the order among birds that share one is
  not.
\<close>

theorem lifelist_order_by_recency:
  assumes "order_by_last_seen_desc (annotate_first_last qs) rows"
  shows "sorted_wrt (\<lambda>a b. last_seen_date a \<ge> last_seen_date b) (lifelist_entries qs rows)
    \<and> (distinct (map last_seen (annotate_first_last qs)) \<longrightarrow>
         (\<forall>rows'. order_by_last_seen_desc (annotate_first_last qs) rows' \<longrightarrow> rows' = rows))"
proof -
  have "set rows \<subseteq> set (annotate_first_last qs)"
    using ordered_rows(1) [OF assms] by simp
  then have "list_all2 (\<lambda>r e. last_seen r = last_seen_date e) rows (lifelist_entries qs rows)"
    by (rule list_all2_mono [OF lifelist_entries_rows]) simp
  then have "map last_seen_date (lifelist_entries qs rows) = map last_seen rows"
    using list_all2_map_eq [of last_seen last_seen_date rows "lifelist_entries qs rows"] by simp
  moreover have "sorted_wrt (\<lambda>a b. a \<ge> b) (map last_seen rows)"
    using assms by (simp add: order_by_last_seen_desc_def sorted_wrt_map)
  ultimately have "sorted_wrt (\<lambda>a b. a \<ge> b) (map last_seen_date (lifelist_entries qs rows))"
    by simp
  then have "sorted_wrt (\<lambda>a b. last_seen_date a \<ge> last_seen_date b) (lifelist_entries qs rows)"
    by (simp add: sorted_wrt_map)
  then show ?thesis
    using order_by_unique [OF assms] by blast
qed

theorem lifelist_order_by_recency_witness:
  "order_by_last_seen_desc (annotate_first_last scenario_sightings) scenario_rows
   \<and> distinct (map last_seen (annotate_first_last scenario_sightings))
   \<and> sorted_wrt (\<lambda>a b. last_seen_date a \<ge> last_seen_date b)
       (lifelist_entries scenario_sightings scenario_rows)
   \<and> \<not> order_by_last_seen_desc (annotate_first_last scenario_sightings) (rev scenario_rows)"
proof -
  have d: "distinct (map last_seen (annotate_first_last scenario_sightings))"
    unfolding scenario_annotate by (simp add: scenario_rows_def)
  have "rev scenario_rows \<noteq> scenario_rows"
    by (simp add: scenario_rows_def)
  then show ?thesis
    using scenario_ordered d lifelist_order_by_recency [OF scenario_ordered] by blast
qed

lemma tie_annotate: "annotate_first_last tie_sightings = [tie_row 1, tie_row 2]"
  by (simp add: annotate_first_last_def tie_sightings_def tie_row_def sighting_of_def
      dates_of_bird_def)

text \<open>
  C5 as stated fails. Robin (bird 1) and Sparrow (bird 2) were both last seen on
  2023-03-01. The rows in the order Sparrow, Robin are a result of the query, and the
  entries built from them have the greater bird key first; the rows in the order Robin,
  Sparrow are a result of the same query, with other entries.
\<close>

theorem order_by_recency_tie:
  "order_by_last_seen_desc (annotate_first_last tie_sightings) [tie_row 2, tie_row 1]
   \<and> map entry_bird (lifelist_entries tie_sightings [tie_row 2, tie_row 1]) = [2, 1]
   \<and> map last_seen_date (lifelist_entries tie_sightings [tie_row 2, tie_row 1])
       = [(2023, 3, 1), (2023, 3, 1)]
   \<and> order_by_last_seen_desc (annotate_first_last tie_sightings) [tie_row 1, tie_row 2]
   \<and> map entry_bird (lifelist_entries tie_sightings [tie_row 1, tie_row 2]) = [1, 2]"
  unfolding tie_annotate
  by (simp add: order_by_last_seen_desc_def tie_sightings_def tie_row_def sighting_of_def
      first_by_pk_def)

subsection \<open>New species of a period\<close>

lemma before_year_start:
  "valid_date d \<Longrightarrow> d < (year, 1, 1) \<longleftrightarrow> year_of d < year"
  by (cases d) (auto simp: valid_date_def year_of_def month_of_def less_prod_def)

lemma prior_years_set:
  assumes "\<forall>s \<in> set base. valid_date (date_seen s)"
  shows "{s \<in> set base. year_of (date_seen s) < year} = {s \<in> set base. date_seen s < (year, 1, 1)}"
  using assms before_year_start by blast

text \<open>
  C3. For a year window (a year from 1 to 9999) the number of new species computed by
  \<open>yearlist\<close>, and for a month window (a month 1..12 of such a year) the number computed
  by \<open>monthlist\<close>, is the number of birds seen in the window that are not among the birds
  of the sightings dated before the first day of the window. For the year window these
  are the sightings of earlier years, which is how the view selects them.
\<close>

theorem new_species_is_set_difference:
  assumes "\<forall>s \<in> set base. valid_date (date_seen s)"
      and "1 \<le> year" and "year \<le> 9999" and "1 \<le> month" and "month \<le> 12"
  shows "map_option new_species (yearlist_year_stats year base) =
           Some (card (bird_id ` {s \<in> set base. year_of (date_seen s) = year}
                       - bird_id ` {s \<in> set base. date_seen s < (year, 1, 1)}))
       \<and> map_sum id (map_option new_species) (monthlist_month_stats year month base) =
           Inr (Some (card (bird_id ` {s \<in> set base. year_of (date_seen s) = year
                                    \<and> month_of (date_seen s) = month}
                       - bird_id ` {s \<in> set base. date_seen s < (year, month, 1)})))"
proof -
  have y: "set (map bird_id (filter (\<lambda>s. year_of (date_seen s) < year) base))
        = bird_id ` {s \<in> set base. date_seen s < (year, 1, 1)}"
    using prior_years_set [OF assms(1), of year] by simp
  have "map_option new_species (yearlist_year_stats year base) =
           Some (card (bird_id ` {s \<in> set base. year_of (date_seen s) = year}
                       - bird_id ` {s \<in> set base. date_seen s < (year, 1, 1)}))"
    using assms(2) by (simp add: yearlist_year_stats_def Let_def y del: set_map set_filter) simp
  moreover have "map_sum id (map_option new_species) (monthlist_month_stats year month base) =
           Inr (Some (card (bird_id ` {s \<in> set base. year_of (date_seen s) = year
                                    \<and> month_of (date_seen s) = month}
                       - bird_id ` {s \<in> set base. date_seen s < (year, month, 1)})))"
    using assms(2,3,4,5) by (simp add: monthlist_month_stats_def Let_def)
  ultimately show ?thesis by blast
qed

lemma history_valid: "\<forall>s \<in> set history_sightings. valid_date (date_seen s)"
  by (simp add: history_sightings_def sighting_of_def valid_date_def month_of_def)

lemma history_year_stats:
  "yearlist_year_stats 2023 history_sightings =
     Some \<lparr>stats_total_sightings = 2, unique_species = 2, new_species = 1\<rparr>"
  by (simp add: yearlist_year_stats_def history_sightings_def sighting_of_def year_of_def
      annotate_first_last_def Let_def)

lemma history_month_stats:
  "monthlist_month_stats 2023 5 history_sightings =
     Inr (Some \<lparr>stats_total_sightings = 2, unique_species = 2, new_species = 1\<rparr>)"
  by (simp add: monthlist_month_stats_def history_sightings_def sighting_of_def year_of_def
      month_of_def annotate_first_last_def Let_def less_prod_def)

theorem new_species_is_set_difference_witness:
  "map_option new_species (yearlist_year_stats 2023 history_sightings) = Some 1
   \<and> map_sum id (map_option new_species) (monthlist_month_stats 2023 5 history_sightings)
       = Inr (Some 1)
   \<and> card (bird_id ` {s \<in> set history_sightings. year_of (date_seen s) = 2023}
           - bird_id ` {s \<in> set history_sightings. date_seen s < (2023, 1, 1)}) = 1
   \<and> card (bird_id ` {s \<in> set history_sightings. year_of (date_seen s) = 2023
                           \<and> month_of (date_seen s) = 5}
           - bird_id ` {s \<in> set history_sightings. date_seen s < (2023, 5, 1)}) = 1"
  using history_valid new_species_is_set_difference [OF history_valid, of 2023 5]
  by (simp add: history_year_stats history_month_stats)

subsection \<open>Pagination\<close>























subsection \<open>The count of a sighting\<close>

text \<open>
  C7 does not hold of \<open>add_sighting\<close>. A submission with count 0 (here against a database
  with 32-bit integer columns) passes the form and is saved: the table gets a third row,
  whose count is 0.
\<close>

theorem add_sighting_saves_count_zero:
  "add_sighting (- 2147483648, 2147483647) POST count_zero_post example_trip_store =
     (Redirect_add_sighting ''Sighting of Robin recorded successfully!'',
      example_trip_store\<lparr>sightings := sightings example_trip_store @
        [\<lparr>sighting_pk = 3, bird_id = 1, location_id = 1, trip_id = None,
          date_seen = (2023, 7, 1), heard_not_seen = False, count_field = 0,
          notes_field = ''''\<rparr>]\<rparr>)"
  by (simp add: add_sighting_def SightingForm_clean_def save_sighting_def next_pk_def
      count_zero_post_def example_trip_store_def)

end
